theory Spec2Isabelle
  imports Complex_Main
begin

section \<open>Strings as Python handles them\<close>

text \<open>
  Strings are lists of characters. Characters are the code points below 256; the
  whitespace test is the one of Python's \<open>str.isspace\<close> on that range.
\<close>

definition is_space :: "char \<Rightarrow> bool" where
  "is_space c = (of_char c \<in> set [9, 10, 11, 12, 13, 28, 29, 30, 31, 32, 133, 160 :: nat])"

text \<open>\<open>s.strip()\<close>: whitespace removed at both ends.\<close>

definition strip :: "string \<Rightarrow> string" where
  "strip s = rev (dropWhile is_space (rev (dropWhile is_space s)))"

text \<open>\<open>s.split(c)\<close> for a one-character separator: never empty, \<open>''''\<close> gives \<open>['''']\<close>.\<close>

fun split_chr :: "char \<Rightarrow> string \<Rightarrow> string list" where
  "split_chr c [] = [[]]"
| "split_chr c (x # xs) =
     (if x = c then [] # split_chr c xs
      else (case split_chr c xs of
              [] \<Rightarrow> [[x]]
            | w # ws \<Rightarrow> (x # w) # ws))"

section \<open>GraphService\<close>

text \<open>
  The request dictionary: a key that is absent is \<open>None\<close>, and \<open>data.get(k, d)\<close> is
  the default \<open>d\<close> there.
\<close>

record chart_request =
  req_labels :: "string option"
  req_values :: "string option"
  req_type :: "string option"
  req_title :: "string option"

definition get_or :: "'a option \<Rightarrow> 'a \<Rightarrow> 'a" where
  "get_or field dflt = (case field of None \<Rightarrow> dflt | Some v \<Rightarrow> v)"

text \<open>
  Python's numbers are a type \<open>'n\<close> that is left open: floats round, and \<open>float\<close> also
  returns infinities and NaN, so nothing is assumed about them. What the code does with
  numbers is given with them: the \<open>0\<close> it pads with, the builtin \<open>sum\<close> of a list, the
  division of a number by a length, and the comparison \<open><\<close>. Numbers that Python's
  \<open>==\<close> identifies, such as \<open>0\<close> and \<open>0.0\<close>, are one value.
\<close>

record 'n arith =
  num_zero :: 'n
  num_sum :: "'n list \<Rightarrow> 'n"
  num_div :: "'n \<Rightarrow> nat \<Rightarrow> 'n"
  num_less :: "'n \<Rightarrow> 'n \<Rightarrow> bool"

text \<open>
  The builtin \<open>float\<close> is a parameter \<open>pf\<close> of everything that parses; \<open>None\<close> is its
  \<open>ValueError\<close>.
\<close>

type_synonym 'n float_parser = "string \<Rightarrow> 'n option"

text \<open>\<open>[l.strip() for l in raw_labels.split(',') if l.strip()]\<close>\<close>

definition label_tokens :: "string \<Rightarrow> string list" where
  "label_tokens raw_labels =
     map strip (filter (\<lambda>l. strip l \<noteq> []) (split_chr (CHR '','') raw_labels))"

text \<open>
  \<open>[float(v.strip()) for v in ... if v.strip()]\<close>, token by token: the first token that
  \<open>float\<close> rejects ends the comprehension with \<open>ValueError\<close>.
\<close>

fun float_tokens :: "'n float_parser \<Rightarrow> string list \<Rightarrow> 'n list option" where
  "float_tokens pf [] = Some []"
| "float_tokens pf (v # vs) =
     (if strip v \<noteq> [] then
        (case pf (strip v) of
           None \<Rightarrow> None
         | Some x \<Rightarrow> (case float_tokens pf vs of None \<Rightarrow> None | Some xs \<Rightarrow> Some (x # xs)))
      else float_tokens pf vs)"

text \<open>The \<open>try\<close> around the comprehension: \<open>except ValueError: values = []\<close>.\<close>

definition value_tokens :: "'n float_parser \<Rightarrow> string \<Rightarrow> 'n list" where
  "value_tokens pf raw_values =
     (case float_tokens pf (split_chr (CHR '','') raw_values) of
        None \<Rightarrow> []
      | Some xs \<Rightarrow> xs)"

text \<open>
  \<open>max\<close> and \<open>min\<close> as the builtins run, on a list with first element \<open>v\<close>: from left to
  right, an item replaces the one kept when it is greater (for \<open>min\<close>: less) than it.
\<close>

definition py_max :: "('n \<Rightarrow> 'n \<Rightarrow> bool) \<Rightarrow> 'n \<Rightarrow> 'n list \<Rightarrow> 'n" where
  "py_max lt v vs = foldl (\<lambda>m x. if lt m x then x else m) v vs"

definition py_min :: "('n \<Rightarrow> 'n \<Rightarrow> bool) \<Rightarrow> 'n \<Rightarrow> 'n list \<Rightarrow> 'n" where
  "py_min lt v vs = foldl (\<lambda>m x. if lt x m then x else m) v vs"

record 'n chart_stats =
  stat_sum :: 'n
  stat_avg :: 'n
  stat_max :: 'n
  stat_min :: 'n

text \<open>The \<open>stats\<close> dictionary, written the same way in both functions.\<close>

definition chart_stats_of :: "'n arith \<Rightarrow> 'n list \<Rightarrow> 'n chart_stats" where
  "chart_stats_of A vals =
     \<lparr> stat_sum = num_sum A vals,
       stat_avg = (if vals \<noteq> [] then num_div A (num_sum A vals) (length vals) else num_zero A),
       stat_max = (case vals of [] \<Rightarrow> num_zero A | v # vs \<Rightarrow> py_max (num_less A) v vs),
       stat_min = (case vals of [] \<Rightarrow> num_zero A | v # vs \<Rightarrow> py_min (num_less A) v vs) \<rparr>"

datatype colors = Single_Color string | Color_List "string list"

definition palette :: "string list" where
  "palette = [''rgba(13, 148, 136, 0.7)'', ''rgba(110, 231, 183, 0.7)'',
              ''rgba(51, 65, 85, 0.7)'', ''rgba(204, 251, 241, 0.7)'',
              ''rgba(15, 118, 110, 0.7)'']"

definition get_colors :: "string \<Rightarrow> nat \<Rightarrow> colors" where
  "get_colors chart_type count =
     (if chart_type = ''pie''
      then Color_List (map (\<lambda>i. palette ! (i mod length palette)) [0 ..< count])
      else Single_Color (palette ! 0))"

record 'n dataset =
  ds_label :: string
  ds_data :: "'n list"
  ds_backgroundColor :: colors
  ds_borderColor :: string
  ds_borderWidth :: nat

record 'n chart_result =
  res_labels :: "string list"
  res_datasets :: "'n dataset list"
  res_stats :: "'n chart_stats"

definition process_chart_data ::
  "'n arith \<Rightarrow> 'n float_parser \<Rightarrow> chart_request \<Rightarrow> 'n chart_result" where
  "process_chart_data A pf data =
     (let raw_labels = get_or (req_labels data) '''';
          raw_values = get_or (req_values data) '''';
          chart_type = get_or (req_type data) ''bar'';
          labels0 = label_tokens raw_labels;
          values0 = value_tokens pf raw_values;
          max_len = max (length labels0) (length values0);
          labels1 = take max_len (labels0 @ replicate max_len ''Label'');
          values1 = take max_len (values0 @ replicate max_len (num_zero A))
      in \<lparr> res_labels = labels1,
           res_datasets =
             [\<lparr> ds_label = get_or (req_title data) ''Dataset'',
                ds_data = values1,
                ds_backgroundColor = get_colors chart_type (length values1),
                ds_borderColor = ''#0d9488'',
                ds_borderWidth = 1 \<rparr>],
           res_stats = chart_stats_of A values1 \<rparr>)"

text \<open>The one dataset of a result, and its data.\<close>

definition res_data :: "'n chart_result \<Rightarrow> 'n list" where
  "res_data r = concat (map ds_data (res_datasets r))"

text \<open>
  \<open>generate_matplotlib_plot\<close> up to the plotting calls: the label and value sequences it
  hands to Matplotlib.
\<close>

definition plot_inputs ::
  "'n arith \<Rightarrow> 'n float_parser \<Rightarrow> chart_request \<Rightarrow> string list \<times> 'n list" where
  "plot_inputs A pf data =
     (let raw_labels = get_or (req_labels data) '''';
          raw_values = get_or (req_values data) '''';
          labels0 = label_tokens raw_labels;
          values0 = value_tokens pf raw_values;
          max_len = max (length labels0) (length values0);
          labels1 = (if length labels0 < max_len
                     then labels0 @ replicate (max_len - length labels0) ''''
                     else labels0);
          values1 = (if length values0 < max_len
                     then values0 @ replicate (max_len - length values0) (num_zero A)
                     else values0)
      in (labels1, values1))"

text \<open>The figure that is drawn: one of three plots, chosen by the type, and the title.\<close>

datatype 'n plot =
    Line_Plot "string list" "'n list"
  | Pie_Plot "'n list" "string list"
  | Bar_Plot "string list" "'n list"

record 'n figure =
  fig_plot :: "'n plot"
  fig_title :: string

record 'n plot_result =
  plot_image :: string
  plot_stats :: "'n chart_stats"

text \<open>
  Rasterising and base64-encoding the figure is Matplotlib's work: \<open>render\<close> stands for
  it, and \<open>None\<close> for an exception it raises.
\<close>

definition generate_matplotlib_plot ::
  "'n arith \<Rightarrow> 'n float_parser \<Rightarrow> ('n figure \<Rightarrow> string option) \<Rightarrow> chart_request
   \<Rightarrow> 'n plot_result option" where
  "generate_matplotlib_plot A pf render data =
     (let chart_type = get_or (req_type data) ''bar'';
          title = get_or (req_title data) ''Data Plot'';
          (labels1, values1) = plot_inputs A pf data;
          fig = \<lparr> fig_plot =
                    (if chart_type = ''line'' then Line_Plot labels1 values1
                     else if chart_type = ''pie'' then Pie_Plot values1 labels1
                     else Bar_Plot labels1 values1),
                  fig_title = title \<rparr>
      in (case render fig of
            None \<Rightarrow> None
          | Some img_str \<Rightarrow>
              Some \<lparr> plot_image = ''data:image/png;base64,'' @ img_str,
                     plot_stats = chart_stats_of A values1 \<rparr>))"

section \<open>ExportService\<close>

text \<open>
  A block of the document and the content dictionary, with \<open>None\<close> for an absent key.
\<close>

record block =
  blk_type :: "string option"
  blk_text :: "string option"
  blk_content :: "string option"

record content =
  doc_blocks :: "block list option"

definition newline :: string where
  "newline = [CHR 0x0A]"

text \<open>
  \<open>re.sub(r'<[^>]+>', '', text)\<close>. A match starts at a \<open><\<close>, takes one or more
  characters other than \<open>>\<close> and the \<open>>\<close> that follows them; \<open>tag_end\<close> is what is left
  behind such a match, for the text behind the \<open><\<close>.
\<close>

definition tag_end :: "string \<Rightarrow> string option" where
  "tag_end cs =
     (case dropWhile (\<lambda>x. x \<noteq> CHR ''>'') cs of
        [] \<Rightarrow> None
      | g # rest \<Rightarrow> if takeWhile (\<lambda>x. x \<noteq> CHR ''>'') cs = [] then None else Some rest)"

function strip_tags :: "string \<Rightarrow> string" where
  "strip_tags [] = []"
| "strip_tags (c # cs) =
     (if c = CHR ''<'' then
        (case tag_end cs of
           None \<Rightarrow> c # strip_tags cs
         | Some rest \<Rightarrow> strip_tags rest)
      else c # strip_tags cs)"
  by pat_completeness auto
termination
proof (relation "measure length")
  fix c :: char and cs rest :: string
  assume "tag_end cs = Some rest"
  then have "length rest < length (dropWhile (\<lambda>x. x \<noteq> CHR ''>'') cs)"
    by (auto simp: tag_end_def split: list.splits if_splits)
  also have "\<dots> \<le> length cs"
    by (rule length_dropWhile_le)
  finally show "(rest, c # cs) \<in> measure length"
    by simp
qed simp_all

text \<open>
  \<open>s.replace(old, new)\<close>: the occurrences of \<open>old\<close> from the left, none overlapping.
  \<open>old\<close> is a non-empty literal at every call.
\<close>

function replace_all :: "string \<Rightarrow> string \<Rightarrow> string \<Rightarrow> string" where
  "replace_all old new [] = []"
| "replace_all old new (c # cs) =
     (if old \<noteq> [] \<and> take (length old) (c # cs) = old
      then new @ replace_all old new (drop (length old) (c # cs))
      else c # replace_all old new cs)"
  by pat_completeness auto
termination
  by (relation "measure (\<lambda>(old, new, s). length s)") (auto simp: neq_Nil_conv)

definition clean_html :: "string \<Rightarrow> string" where
  "clean_html text0 =
     (let text1 = strip_tags text0;
          text2 = replace_all ''&nbsp;'' '' '' text1;
          text3 = replace_all ''&lt;'' ''<'' text2;
          text4 = replace_all ''&gt;'' ''>'' text3;
          text5 = replace_all ''&amp;'' ''&'' text4
      in strip text5)"

subsection \<open>Markdown\<close>

text \<open>The loop over the blocks, with the list \<open>markdown\<close> it appends to.\<close>

fun markdown_loop :: "block list \<Rightarrow> string list \<Rightarrow> string list" where
  "markdown_loop [] markdown = markdown"
| "markdown_loop (b # bs) markdown =
     (let block_type = get_or (blk_type b) ''p'';
          text0 = strip (get_or (blk_text b) [])
      in if text0 = [] then markdown_loop bs markdown
         else
           (let text1 = clean_html text0;
                line = (if block_type = ''h1'' then ''# '' @ text1 @ newline
                        else if block_type = ''h2'' then ''## '' @ text1 @ newline
                        else if block_type = ''h3'' then ''### '' @ text1 @ newline
                        else text1 @ newline)
            in markdown_loop bs (markdown @ [line] @ [newline])))"

definition export_to_markdown :: "content \<Rightarrow> string" where
  "export_to_markdown c = concat (markdown_loop (get_or (doc_blocks c) []) [])"

subsection \<open>HTML\<close>





subsection \<open>PDF\<close>

text \<open>
  The story handed to ReportLab: paragraphs, spacers and images. Three pieces of library
  work are parameters. \<open>paragraph\<close> is ReportLab's \<open>Paragraph(text, style)\<close>, which parses
  its text as markup when it is built and raises on text it cannot parse: \<open>None\<close>.
  \<open>open_image\<close> is the library work inside the \<open>try\<close> of a graph block, \<open>b64decode\<close>,
  \<open>Image.open\<close> and the ReportLab image built on the same bytes; it gives the picture's
  width and height, and \<open>None\<close> when one of the calls raises. \<open>build\<close> is \<open>doc.build\<close>,
  which lays the story out into bytes or raises.
\<close>

datatype style = Title_Style | CustomH1 | CustomH2 | CustomH3 | BodyText

text \<open>
  Lengths are kept as the code writes them and are not computed: a number of points,
  \<open>k / 10 * inch\<close>, and \<open>w * (height / float(width))\<close>.
\<close>

datatype length = Points nat | Inch_Tenths nat | Scaled nat nat nat

datatype 'p flowable =
    Para 'p
  | Spacer length length
  | RLImage string length length

text \<open>\<open>sep in s\<close> and \<open>s.split(sep)\<close> for a separator of several characters.\<close>

fun contains :: "string \<Rightarrow> string \<Rightarrow> bool" where
  "contains sep [] = (sep = [])"
| "contains sep (c # cs) = (take (length sep) (c # cs) = sep \<or> contains sep cs)"

function split_str :: "string \<Rightarrow> string \<Rightarrow> string list" where
  "split_str sep [] = [[]]"
| "split_str sep (c # cs) =
     (if sep \<noteq> [] \<and> take (length sep) (c # cs) = sep
      then [] # split_str sep (drop (length sep) (c # cs))
      else (case split_str sep cs of
              [] \<Rightarrow> [[c]]
            | w # ws \<Rightarrow> (c # w) # ws))"
  by pat_completeness auto
termination
  by (relation "measure (\<lambda>(sep, s). length s)") (auto simp: neq_Nil_conv)

text \<open>\<open>xs[1]\<close>, with \<open>None\<close> for the \<open>IndexError\<close>.\<close>

definition second :: "'a list \<Rightarrow> 'a option" where
  "second xs = (case xs of x # y # ys \<Rightarrow> Some y | _ \<Rightarrow> None)"

text \<open>
  The branch of a graph block: what it appends to the story. Every exception inside the
  \<open>try\<close> (a bad payload, a picture of width 0) is printed and nothing is appended.
\<close>

definition graph_flowables :: "(string \<Rightarrow> (nat \<times> nat) option) \<Rightarrow> block \<Rightarrow> 'p flowable list" where
  "graph_flowables open_image b =
     (let img_data = get_or (blk_content b) []
      in if img_data \<noteq> [] then
           (case (if contains ''base64,'' img_data
                  then second (split_str ''base64,'' img_data)
                  else Some img_data) of
              None \<Rightarrow> []
            | Some img_data1 \<Rightarrow>
                (case open_image img_data1 of
                   None \<Rightarrow> []
                 | Some (width, height) \<Rightarrow>
                     if width = 0 then []
                     else
                       (let display_width = 450;
                            display_height = Scaled display_width height width
                        in [RLImage img_data1 (Points display_width) display_height,
                            Spacer (Points 1) (Inch_Tenths 2)])))
         else [])"

text \<open>
  The loop over the blocks, with the story it appends to. An exception of \<open>Paragraph\<close>
  is not caught: it ends the loop and the export (\<open>None\<close>).
\<close>

fun pdf_loop ::
  "(string \<Rightarrow> (nat \<times> nat) option) \<Rightarrow> (string \<Rightarrow> style \<Rightarrow> 'p option) \<Rightarrow>
   block list \<Rightarrow> 'p flowable list \<Rightarrow> 'p flowable list option" where
  "pdf_loop open_image paragraph [] story = Some story"
| "pdf_loop open_image paragraph (b # bs) story =
     (let block_type = get_or (blk_type b) ''p'';
          text0 = strip (get_or (blk_text b) [])
      in if block_type = ''graph''
         then pdf_loop open_image paragraph bs (story @ graph_flowables open_image b)
         else if text0 = [] then pdf_loop open_image paragraph bs story
         else
           (let text1 = clean_html text0
            in (case (if block_type = ''h1'' then paragraph text1 CustomH1
                      else if block_type = ''h2'' then paragraph text1 CustomH2
                      else if block_type = ''h3'' then paragraph text1 CustomH3
                      else paragraph text1 BodyText) of
                  None \<Rightarrow> None
                | Some para \<Rightarrow>
                    pdf_loop open_image paragraph bs
                      (story @ [Para para] @ [Spacer (Points 1) (Inch_Tenths 1)]))))"

definition pdf_story ::
  "(string \<Rightarrow> (nat \<times> nat) option) \<Rightarrow> (string \<Rightarrow> style \<Rightarrow> 'p option) \<Rightarrow>
   content \<Rightarrow> string \<Rightarrow> 'p flowable list option" where
  "pdf_story open_image paragraph c title =
     (case paragraph title Title_Style of
        None \<Rightarrow> None
      | Some title_para \<Rightarrow>
          pdf_loop open_image paragraph (get_or (doc_blocks c) [])
            [Para title_para, Spacer (Points 1) (Inch_Tenths 2)])"

definition export_to_pdf ::
  "(string \<Rightarrow> (nat \<times> nat) option) \<Rightarrow> (string \<Rightarrow> style \<Rightarrow> 'p option) \<Rightarrow>
   ('p flowable list \<Rightarrow> 'bytes option) \<Rightarrow> content \<Rightarrow> string \<Rightarrow> 'bytes option" where
  "export_to_pdf open_image paragraph build c title =
     (case pdf_story open_image paragraph c title of
        None \<Rightarrow> None
      | Some story \<Rightarrow> build story)"

section \<open>AuthService\<close>

text \<open>
  A decoded token is a dictionary of claims. The identity provider's
  \<open>auth.verify_id_token\<close> and PyJWT's \<open>jwt.decode\<close> are parameters that return the
  claims or the exception they raise.
\<close>

type_synonym claims = "(string \<times> string) list"

datatype jwt_exception = ExpiredSignatureError | InvalidTokenError | Other_Exception

definition verify_firebase_token :: "(string \<Rightarrow> 'e + claims) \<Rightarrow> string \<Rightarrow> claims option" where
  "verify_firebase_token verify_id_token id_token =
     (case verify_id_token id_token of
        Inr decoded_token \<Rightarrow> Some decoded_token
      | Inl e \<Rightarrow> None)"

text \<open>
  Only the two PyJWT exceptions are caught; any other one leaves the function (\<open>Inl\<close>).
\<close>

definition verify_session_token ::
  "(string \<Rightarrow> jwt_exception + claims) \<Rightarrow> string \<Rightarrow> jwt_exception + claims option" where
  "verify_session_token jwt_decode token =
     (case jwt_decode token of
        Inr payload \<Rightarrow> Inr (Some payload)
      | Inl ExpiredSignatureError \<Rightarrow> Inr None
      | Inl InvalidTokenError \<Rightarrow> Inr None
      | Inl Other_Exception \<Rightarrow> Inl Other_Exception)"

text \<open>\<open>not decoded\<close>: \<open>None\<close> and the empty dictionary are both false.\<close>

definition falsy :: "claims option \<Rightarrow> bool" where
  "falsy decoded = (case decoded of None \<Rightarrow> True | Some d \<Rightarrow> d = [])"

text \<open>
  What the decorated function returns: a 401 with its message, or what the handler
  returned. The handler reads the claims from \<open>request.user\<close>; \<open>None\<close> is an exception it
  raises, which the decorator's own \<open>except\<close> catches.
\<close>

datatype 'r response = Unauthorized string | Handled 'r

definition call_handler :: "(claims \<Rightarrow> 'r option) \<Rightarrow> claims \<Rightarrow> 'r response" where
  "call_handler f user =
     (case f user of
        Some r \<Rightarrow> Handled r
      | None \<Rightarrow> Unauthorized ''Authentication failed'')"

definition require_auth ::
  "(string \<Rightarrow> 'e + claims) \<Rightarrow> (string \<Rightarrow> jwt_exception + claims) \<Rightarrow>
   (claims \<Rightarrow> 'r option) \<Rightarrow> string option \<Rightarrow> 'r response" where
  "require_auth verify_id_token jwt_decode f auth_header =
     (case auth_header of
        None \<Rightarrow> Unauthorized ''No authorization header''
      | Some h \<Rightarrow>
          if h = [] then Unauthorized ''No authorization header''
          else
            (case second (split_chr (CHR '' '') h) of
               None \<Rightarrow> Unauthorized ''Authentication failed''
             | Some token \<Rightarrow>
                 (let decoded1 = verify_firebase_token verify_id_token token
                  in (case (if falsy decoded1
                            then verify_session_token jwt_decode token
                            else Inr decoded1) of
                        Inl e \<Rightarrow> Unauthorized ''Authentication failed''
                      | Inr decoded \<Rightarrow>
                          (case decoded of
                             None \<Rightarrow> Unauthorized ''Invalid token''
                           | Some user \<Rightarrow>
                               if user = [] then Unauthorized ''Invalid token''
                               else call_handler f user)))))"

text \<open>
  \<open>update_user\<close>. A keyword argument's value is \<open>None\<close>, a string or a boolean; the
  keyword arguments are a dictionary in the order they were given. The function's own
  parameters are \<open>self\<close> and \<open>uid\<close>: a keyword argument with one of these names is a
  second value for that parameter, and the call raises \<open>TypeError\<close> before the body
  runs. The identity provider's \<open>auth.update_user\<close> is the parameter \<open>idp_update\<close>; its
  exception is raised again.
\<close>

datatype pyval = PyNone | PyStr string | PyBool bool







section \<open>Instances for the examples\<close>

text \<open>
  An instance of \<open>float\<close>: on a string of ASCII digits Python's \<open>float\<close> returns the
  number they denote, and on a string with a letter it raises. The instance fails on every
  string that is not all digits; the examples use digits and letters only.
\<close>

definition digit_val :: "char \<Rightarrow> nat option" where
  "digit_val c =
     (let n = (of_char c :: nat) in if 48 \<le> n \<and> n \<le> 57 then Some (n - 48) else None)"

fun digits_nat :: "nat \<Rightarrow> string \<Rightarrow> nat option" where
  "digits_nat acc [] = Some acc"
| "digits_nat acc (c # cs) =
     (case digit_val c of None \<Rightarrow> None | Some d \<Rightarrow> digits_nat (10 * acc + d) cs)"

definition digits_float :: "rat float_parser" where
  "digits_float s =
     (if s = [] then None
      else (case digits_nat 0 s of None \<Rightarrow> None | Some n \<Rightarrow> Some (of_nat n)))"

text \<open>
  An instance of the numbers: the rationals with exact arithmetic. The examples use small
  integers whose sums and averages are small integers again; on these the floats compute
  the same sums, quotients and comparisons, without rounding.
\<close>

definition exact_arith :: "rat arith" where
  "exact_arith =
     \<lparr> num_zero = 0,
       num_sum = (\<lambda>vs. foldl (\<lambda>s v. s + v) 0 vs),
       num_div = (\<lambda>x n. x / of_nat n),
       num_less = (\<lambda>x y. x < y) \<rparr>"




section \<open>Properties of GraphService\<close>

subsection \<open>The builtins \<open>max\<close> and \<open>min\<close>\<close>

lemma py_max_member: "py_max lt v vs \<in> set (v # vs)"
proof (induction vs arbitrary: v)
  case Nil
  show ?case by (simp add: py_max_def)
next
  case (Cons x xs)
  have step: "py_max lt v (x # xs) = py_max lt (if lt v x then x else v) xs"
    by (simp add: py_max_def)
  from Cons.IH [of "if lt v x then x else v"] show ?case
    unfolding step by (auto split: if_splits)
qed

lemma py_min_flip: "py_min lt v vs = py_max (\<lambda>a b. lt b a) v vs"
  by (simp add: py_min_def py_max_def)

lemma py_max_above:
  assumes trans: "\<And>x y z. lt x y \<Longrightarrow> lt y z \<Longrightarrow> lt x z"
  shows "py_max lt v vs = v \<or> lt v (py_max lt v vs)"
proof (induction vs arbitrary: v)
  case Nil
  show ?case by (simp add: py_max_def)
next
  case (Cons x xs)
  have step: "py_max lt v (x # xs) = py_max lt (if lt v x then x else v) xs"
    by (simp add: py_max_def)
  show ?case
  proof (cases "lt v x")
    case True
    with Cons.IH [of x] step show ?thesis
      by (auto intro: trans)
  next
    case False
    with Cons.IH [of v] step show ?thesis
      by simp
  qed
qed

lemma py_max_upper:
  assumes trans: "\<And>x y z. lt x y \<Longrightarrow> lt y z \<Longrightarrow> lt x z"
    and irrefl: "\<And>x. \<not> lt x x"
  shows "\<forall>x\<in>set (v # vs). \<not> lt (py_max lt v vs) x"
proof (induction vs arbitrary: v)
  case Nil
  show ?case by (simp add: py_max_def irrefl)
next
  case (Cons y ys)
  let ?w = "if lt v y then y else v"
  let ?r = "py_max lt ?w ys"
  have step: "py_max lt v (y # ys) = ?r"
    by (simp add: py_max_def)
  have above: "?r = ?w \<or> lt ?w ?r"
    using trans by (rule py_max_above)
  have rest: "\<forall>x\<in>set (?w # ys). \<not> lt ?r x"
    by (rule Cons.IH)
  then have w: "\<not> lt ?r ?w"
    by simp
  have v: "\<not> lt ?r v"
  proof (cases "lt v y")
    case True
    with w have "\<not> lt ?r y" by simp
    with True show ?thesis by (auto dest: trans)
  next
    case False
    with w show ?thesis by simp
  qed
  have y: "\<not> lt ?r y"
  proof (cases "lt v y")
    case True
    with w show ?thesis by simp
  next
    case False
    with above have "?r = v \<or> lt v ?r" by simp
    with False show ?thesis by (auto dest: trans)
  qed
  from v y rest show ?case
    unfolding step by simp
qed

lemma py_max_replicate: "py_max lt z (replicate k z) = z"
  by (induction k) (simp_all add: py_max_def)

subsection \<open>Padding in closed form\<close>

lemma take_pad: "take (max (length xs) n) (xs @ replicate (max (length xs) n) p)
   = xs @ replicate (n - length xs) p"
  by (cases "length xs \<le> n") (simp_all add: max_def)

lemma take_pad': "take (max n (length xs)) (xs @ replicate (max n (length xs)) p)
   = xs @ replicate (n - length xs) p"
  by (cases "length xs \<le> n") (simp_all add: max_def)

lemma pcd_labels: "res_labels (process_chart_data A pf d) =
   label_tokens (get_or (req_labels d) '''') @
   replicate (length (value_tokens pf (get_or (req_values d) '''')) - length (label_tokens (get_or (req_labels d) ''''))) ''Label''"
  by (simp add: process_chart_data_def Let_def take_pad)

lemma pcd_data: "res_data (process_chart_data A pf d) =
   value_tokens pf (get_or (req_values d) '''') @
   replicate (length (label_tokens (get_or (req_labels d) '''')) - length (value_tokens pf (get_or (req_values d) ''''))) (num_zero A)"
  by (simp add: process_chart_data_def res_data_def Let_def take_pad')

lemma pcd_stats:
  "res_stats (process_chart_data A pf d) = chart_stats_of A (res_data (process_chart_data A pf d))"
  by (simp add: process_chart_data_def res_data_def Let_def)

lemma float_tokens_bad:
  "t \<in> set ts \<Longrightarrow> strip t \<noteq> [] \<Longrightarrow> pf (strip t) = None \<Longrightarrow> float_tokens pf ts = None"
  by (induction ts) (auto split: option.splits)

lemma plot_inputs_eq: "plot_inputs A pf d =
  (label_tokens (get_or (req_labels d) '''') @
   replicate (length (value_tokens pf (get_or (req_values d) '''')) - length (label_tokens (get_or (req_labels d) ''''))) '''',
   value_tokens pf (get_or (req_values d) '''') @
   replicate (length (label_tokens (get_or (req_labels d) '''')) - length (value_tokens pf (get_or (req_values d) ''''))) (num_zero A))"
  by (simp add: plot_inputs_def Let_def max_def)

subsection \<open>Statistics\<close>

text \<open>
  C1, as stated: the statistics are those of the parsed values. They are not: with labels
  \<open>a,b\<close> and values \<open>4\<close> the parsed values are \<open>[4]\<close>, whose statistics are 4, 4, 4
  and 4; the returned data is \<open>[4, 0]\<close> and the returned statistics are sum 4, average 2,
  maximum 4 and minimum 0.
\<close>

theorem stats_over_parsed_counterexample:
  "value_tokens digits_float ''4'' = [4]
   \<and> chart_stats_of exact_arith [4] = \<lparr>stat_sum = 4, stat_avg = 4, stat_max = 4, stat_min = 4\<rparr>
   \<and> res_data (process_chart_data exact_arith digits_float
         \<lparr>req_labels = Some ''a,b'', req_values = Some ''4'', req_type = None, req_title = None\<rparr>)
       = [4, 0]
   \<and> res_stats (process_chart_data exact_arith digits_float
         \<lparr>req_labels = Some ''a,b'', req_values = Some ''4'', req_type = None, req_title = None\<rparr>)
       = \<lparr>stat_sum = 4, stat_avg = 2, stat_max = 4, stat_min = 0\<rparr>
   \<and> res_stats (process_chart_data exact_arith digits_float
         \<lparr>req_labels = Some ''a,b'', req_values = Some ''4'', req_type = None, req_title = None\<rparr>)
       \<noteq> chart_stats_of exact_arith (value_tokens digits_float ''4'')"
  by code_simp

text \<open>
  C1, amended: the statistics are computed over the returned data, which is the parsed
  values padded with 0 up to the number of labels. \<open>sum\<close> is Python's sum of the data
  and \<open>avg\<close> that sum divided by the length of the data; \<open>max\<close> and \<open>min\<close> are what the
  builtins return: an element of the data, and, the comparison being transitive and
  irreflexive as that of the floats is, one that no element of the data is greater than
  (for \<open>min\<close>: less than). \<open>avg\<close>, \<open>max\<close> and \<open>min\<close> are 0 when the data is empty.
  When no value was parsed the data is empty or all 0, and \<open>avg\<close>, \<open>max\<close> and \<open>min\<close> are
  0 given that a sum of zeros is 0 and that 0 divided by a length is 0.
\<close>

theorem stats_over_returned_data:
  "res_data (process_chart_data A pf d) =
     value_tokens pf (get_or (req_values d) []) @
     replicate (length (label_tokens (get_or (req_labels d) []))
                - length (value_tokens pf (get_or (req_values d) []))) (num_zero A)
   \<and> res_stats (process_chart_data A pf d) =
     \<lparr> stat_sum = num_sum A (res_data (process_chart_data A pf d)),
       stat_avg = (if res_data (process_chart_data A pf d) = [] then num_zero A
                   else num_div A (num_sum A (res_data (process_chart_data A pf d)))
                          (length (res_data (process_chart_data A pf d)))),
       stat_max = (case res_data (process_chart_data A pf d) of
                     [] \<Rightarrow> num_zero A
                   | v # vs \<Rightarrow> py_max (num_less A) v vs),
       stat_min = (case res_data (process_chart_data A pf d) of
                     [] \<Rightarrow> num_zero A
                   | v # vs \<Rightarrow> py_min (num_less A) v vs) \<rparr>
   \<and> (res_data (process_chart_data A pf d) \<noteq> [] \<longrightarrow>
        stat_max (res_stats (process_chart_data A pf d)) \<in> set (res_data (process_chart_data A pf d))
        \<and> stat_min (res_stats (process_chart_data A pf d)) \<in> set (res_data (process_chart_data A pf d)))
   \<and> ((\<forall>x y z. num_less A x y \<longrightarrow> num_less A y z \<longrightarrow> num_less A x z)
        \<and> (\<forall>x. \<not> num_less A x x) \<longrightarrow>
        (\<forall>x\<in>set (res_data (process_chart_data A pf d)).
           \<not> num_less A (stat_max (res_stats (process_chart_data A pf d))) x
           \<and> \<not> num_less A x (stat_min (res_stats (process_chart_data A pf d)))))
   \<and> (value_tokens pf (get_or (req_values d) []) = []
        \<and> num_sum A (replicate (length (label_tokens (get_or (req_labels d) []))) (num_zero A))
            = num_zero A
        \<and> num_div A (num_zero A) (length (label_tokens (get_or (req_labels d) []))) = num_zero A
        \<longrightarrow>
        stat_avg (res_stats (process_chart_data A pf d)) = num_zero A
        \<and> stat_max (res_stats (process_chart_data A pf d)) = num_zero A
        \<and> stat_min (res_stats (process_chart_data A pf d)) = num_zero A)"
proof -
  let ?D = "res_data (process_chart_data A pf d)"
  let ?st = "res_stats (process_chart_data A pf d)"
  let ?lt = "num_less A"
  have stats: "?st = chart_stats_of A ?D"
    by (rule pcd_stats)
  have c1: "?D = value_tokens pf (get_or (req_values d) []) @
     replicate (length (label_tokens (get_or (req_labels d) []))
                - length (value_tokens pf (get_or (req_values d) []))) (num_zero A)"
    by (rule pcd_data)
  have c2: "?st =
     \<lparr> stat_sum = num_sum A ?D,
       stat_avg = (if ?D = [] then num_zero A else num_div A (num_sum A ?D) (length ?D)),
       stat_max = (case ?D of [] \<Rightarrow> num_zero A | v # vs \<Rightarrow> py_max ?lt v vs),
       stat_min = (case ?D of [] \<Rightarrow> num_zero A | v # vs \<Rightarrow> py_min ?lt v vs) \<rparr>"
    unfolding stats by (simp add: chart_stats_of_def)
  have c3: "?D \<noteq> [] \<longrightarrow> stat_max ?st \<in> set ?D \<and> stat_min ?st \<in> set ?D"
  proof (cases ?D)
    case Nil
    then show ?thesis by simp
  next
    case (Cons v vs)
    have "py_max ?lt v vs \<in> set (v # vs)"
      by (rule py_max_member)
    moreover have "py_min ?lt v vs \<in> set (v # vs)"
      unfolding py_min_flip by (rule py_max_member)
    ultimately show ?thesis
      unfolding stats by (simp add: chart_stats_of_def Cons)
  qed
  have c4: "(\<forall>x y z. ?lt x y \<longrightarrow> ?lt y z \<longrightarrow> ?lt x z) \<and> (\<forall>x. \<not> ?lt x x) \<longrightarrow>
        (\<forall>x\<in>set ?D. \<not> ?lt (stat_max ?st) x \<and> \<not> ?lt x (stat_min ?st))"
  proof (intro impI, elim conjE)
    assume trans: "\<forall>x y z. ?lt x y \<longrightarrow> ?lt y z \<longrightarrow> ?lt x z" and irrefl: "\<forall>x. \<not> ?lt x x"
    show "\<forall>x\<in>set ?D. \<not> ?lt (stat_max ?st) x \<and> \<not> ?lt x (stat_min ?st)"
    proof (cases ?D)
      case Nil
      then show ?thesis by simp
    next
      case (Cons v vs)
      have up: "\<forall>x\<in>set (v # vs). \<not> ?lt (py_max ?lt v vs) x"
        using trans irrefl by (intro py_max_upper) blast+
      have down: "\<forall>x\<in>set (v # vs). \<not> (\<lambda>a b. ?lt b a) (py_max (\<lambda>a b. ?lt b a) v vs) x"
        using trans irrefl by (intro py_max_upper) blast+
      from up down show ?thesis
        unfolding stats by (simp add: chart_stats_of_def Cons py_min_flip)
    qed
  qed
  have c5: "value_tokens pf (get_or (req_values d) []) = []
        \<and> num_sum A (replicate (length (label_tokens (get_or (req_labels d) []))) (num_zero A))
            = num_zero A
        \<and> num_div A (num_zero A) (length (label_tokens (get_or (req_labels d) []))) = num_zero A
        \<longrightarrow>
        stat_avg ?st = num_zero A \<and> stat_max ?st = num_zero A \<and> stat_min ?st = num_zero A"
  proof (intro impI, elim conjE)
    let ?n = "length (label_tokens (get_or (req_labels d) []))"
    assume none: "value_tokens pf (get_or (req_values d) []) = []"
      and s: "num_sum A (replicate ?n (num_zero A)) = num_zero A"
      and q: "num_div A (num_zero A) ?n = num_zero A"
    have D: "?D = replicate ?n (num_zero A)"
      using c1 none by simp
    show "stat_avg ?st = num_zero A \<and> stat_max ?st = num_zero A \<and> stat_min ?st = num_zero A"
    proof (cases ?n)
      case 0
      with D show ?thesis
        unfolding stats by (simp add: chart_stats_of_def)
    next
      case (Suc k)
      have "chart_stats_of A (replicate (Suc k) (num_zero A)) =
          \<lparr> stat_sum = num_sum A (replicate (Suc k) (num_zero A)),
            stat_avg = num_div A (num_sum A (replicate (Suc k) (num_zero A))) (Suc k),
            stat_max = num_zero A, stat_min = num_zero A \<rparr>"
        by (simp add: chart_stats_of_def py_max_replicate py_min_flip)
      with s q Suc D show ?thesis
        unfolding stats by simp
    qed
  qed
  show ?thesis
    by (rule conjI [OF c1 conjI [OF c2 conjI [OF c3 conjI [OF c4 c5]]]])
qed


theorem stats_over_returned_data_witness:
  "res_data (process_chart_data exact_arith digits_float
        \<lparr>req_labels = Some ''a,b,c,d'', req_values = Some ''3,5'', req_type = None, req_title = None\<rparr>)
       = [3, 5, 0, 0]
   \<and> res_stats (process_chart_data exact_arith digits_float
        \<lparr>req_labels = Some ''a,b,c,d'', req_values = Some ''3,5'', req_type = None, req_title = None\<rparr>)
       = \<lparr>stat_sum = 8, stat_avg = 2, stat_max = 5, stat_min = 0\<rparr>
   \<and> \<not> num_less exact_arith
         (stat_max (res_stats (process_chart_data exact_arith digits_float
            \<lparr>req_labels = Some ''a,b,c,d'', req_values = Some ''3,5'', req_type = None, req_title = None\<rparr>))) 3
   \<and> \<not> num_less exact_arith 3
         (stat_min (res_stats (process_chart_data exact_arith digits_float
            \<lparr>req_labels = Some ''a,b,c,d'', req_values = Some ''3,5'', req_type = None, req_title = None\<rparr>)))
   \<and> value_tokens digits_float ''1,x,3'' = []
   \<and> stat_avg (res_stats (process_chart_data exact_arith digits_float
        \<lparr>req_labels = Some ''a,b'', req_values = Some ''1,x,3'', req_type = None, req_title = None\<rparr>)) = 0
   \<and> stat_max (res_stats (process_chart_data exact_arith digits_float
        \<lparr>req_labels = Some ''a,b'', req_values = Some ''1,x,3'', req_type = None, req_title = None\<rparr>)) = 0
   \<and> stat_min (res_stats (process_chart_data exact_arith digits_float
        \<lparr>req_labels = Some ''a,b'', req_values = Some ''1,x,3'', req_type = None, req_title = None\<rparr>)) = 0"
proof -
  let ?d1 = "\<lparr>req_labels = Some ''a,b,c,d'', req_values = Some ''3,5'', req_type = None, req_title = None\<rparr>"
  let ?d2 = "\<lparr>req_labels = Some ''a,b'', req_values = Some ''1,x,3'', req_type = None, req_title = None\<rparr>"
  note T1 = stats_over_returned_data [of exact_arith digits_float ?d1]
  note T2 = stats_over_returned_data [of exact_arith digits_float ?d2]
  have z: "num_zero exact_arith = 0"
    by (simp add: exact_arith_def)
  have l1: "length (label_tokens ''a,b,c,d'') = 4" and v1: "value_tokens digits_float ''3,5'' = [3, 5]"
    and l2: "length (label_tokens ''a,b'') = 2" and v2: "value_tokens digits_float ''1,x,3'' = []"
    by code_simp+
  have D1: "res_data (process_chart_data exact_arith digits_float ?d1) = [3, 5, 0, 0]"
    using T1 [THEN conjunct1] by (simp add: get_or_def l1 v1 z numeral_2_eq_2)
  have s1: "num_sum exact_arith [3, 5, 0, 0] = 8" and q1: "num_div exact_arith 8 (Suc (Suc (Suc (Suc 0)))) = 2"
    and m1: "py_max (num_less exact_arith) 3 [5, 0, 0] = 5"
    and n1: "py_min (num_less exact_arith) 3 [5, 0, 0] = 0"
    by (simp_all add: exact_arith_def py_max_def py_min_def)
  have S1: "res_stats (process_chart_data exact_arith digits_float ?d1)
       = \<lparr>stat_sum = 8, stat_avg = 2, stat_max = 5, stat_min = 0\<rparr>"
    using T1 [THEN conjunct2, THEN conjunct1] by (simp add: D1 s1 q1 m1 n1)
  have order: "(\<forall>x y z. num_less exact_arith x y \<longrightarrow> num_less exact_arith y z \<longrightarrow> num_less exact_arith x z)
        \<and> (\<forall>x. \<not> num_less exact_arith x x)"
    by (auto simp: exact_arith_def)
  have B1: "\<not> num_less exact_arith
         (stat_max (res_stats (process_chart_data exact_arith digits_float ?d1))) 3
       \<and> \<not> num_less exact_arith 3
         (stat_min (res_stats (process_chart_data exact_arith digits_float ?d1)))"
    using T1 [THEN conjunct2, THEN conjunct2, THEN conjunct2, THEN conjunct1] order
    by (simp add: D1)
  have h: "num_sum exact_arith (replicate (length (label_tokens ''a,b'')) (num_zero exact_arith))
            = num_zero exact_arith"
    and k: "num_div exact_arith (num_zero exact_arith) (length (label_tokens ''a,b''))
            = num_zero exact_arith"
    by (simp_all add: l2 exact_arith_def numeral_2_eq_2)
  have Z2: "stat_avg (res_stats (process_chart_data exact_arith digits_float ?d2)) = 0
       \<and> stat_max (res_stats (process_chart_data exact_arith digits_float ?d2)) = 0
       \<and> stat_min (res_stats (process_chart_data exact_arith digits_float ?d2)) = 0"
    using T2 [THEN conjunct2, THEN conjunct2, THEN conjunct2, THEN conjunct2] v2 h k
    by (simp add: get_or_def z)
  from D1 S1 B1 v2 Z2 show ?thesis
    by blast
qed

subsection \<open>Parsing and padding\<close>

text \<open>
  C2: when the values string has a token that is not empty once its surrounding whitespace
  is stripped (the source's own test for an empty token) and that \<open>float\<close> rejects, the
  whole parsed values sequence is empty, the labels are the parsed labels, and the data is
  one 0 for every label. With values \<open>1,x,3\<close> and labels \<open>a,b\<close> the data is \<open>[0, 0]\<close>.
\<close>

theorem parse_failure_discards_all:
  assumes "t \<in> set (split_chr (CHR '','') (get_or (req_values d) []))"
    and "strip t \<noteq> []"
    and "pf (strip t) = None"
  shows "value_tokens pf (get_or (req_values d) []) = []
         \<and> res_labels (process_chart_data A pf d) = label_tokens (get_or (req_labels d) [])
         \<and> res_data (process_chart_data A pf d)
             = replicate (length (label_tokens (get_or (req_labels d) []))) (num_zero A)"
proof -
  have "float_tokens pf (split_chr (CHR '','') (get_or (req_values d) [])) = None"
    using assms by (rule float_tokens_bad)
  then have none: "value_tokens pf (get_or (req_values d) []) = []"
    by (simp add: value_tokens_def)
  show ?thesis
    by (simp add: none pcd_labels pcd_data)
qed

theorem parse_failure_discards_all_witness:
  "''x'' \<in> set (split_chr (CHR '','') ''1,x,3'')
   \<and> strip ''x'' \<noteq> []
   \<and> digits_float (strip ''x'') = None
   \<and> value_tokens digits_float ''1,x,3'' = []
   \<and> res_labels (process_chart_data exact_arith digits_float
        \<lparr>req_labels = Some ''a,b'', req_values = Some ''1,x,3'', req_type = None, req_title = None\<rparr>)
       = [''a'', ''b'']
   \<and> res_data (process_chart_data exact_arith digits_float
        \<lparr>req_labels = Some ''a,b'', req_values = Some ''1,x,3'', req_type = None, req_title = None\<rparr>)
       = [0, 0]"
proof -
  have h1: "''x'' \<in> set (split_chr (CHR '','') (get_or (req_values
        \<lparr>req_labels = Some ''a,b'', req_values = Some ''1,x,3'', req_type = None, req_title = None\<rparr>) []))"
    by code_simp
  have h2: "strip ''x'' \<noteq> []"
    by code_simp
  have h3: "digits_float (strip ''x'') = None"
    by code_simp
  have l: "label_tokens ''a,b'' = [''a'', ''b'']"
    by code_simp
  have z: "num_zero exact_arith = 0"
    by (simp add: exact_arith_def)
  show ?thesis
    using parse_failure_discards_all
      [where t = "''x''" and pf = digits_float and A = exact_arith and d = "\<lparr>req_labels = Some ''a,b'',
         req_values = Some ''1,x,3'', req_type = None, req_title = None\<rparr>", OF h1 h2 h3]
      h1 h2 h3
    by (simp add: l z get_or_def numeral_2_eq_2)
qed

text \<open>
  C3: the returned labels are the parsed labels followed by as many \<open>Label\<close> as the
  parsed values are longer, the returned data is the parsed values followed by as many 0
  as the parsed labels are longer, and both have the length of the longer one. With labels
  \<open>a,b\<close> and values \<open>1,2,3\<close> there are three labels, the third \<open>Label\<close>, and three
  values.
\<close>

theorem padding_to_longer:
  "res_labels (process_chart_data A pf d) =
     label_tokens (get_or (req_labels d) []) @
     replicate (length (value_tokens pf (get_or (req_values d) []))
                - length (label_tokens (get_or (req_labels d) []))) ''Label''
   \<and> res_data (process_chart_data A pf d) =
     value_tokens pf (get_or (req_values d) []) @
     replicate (length (label_tokens (get_or (req_labels d) []))
                - length (value_tokens pf (get_or (req_values d) []))) (num_zero A)
   \<and> length (res_labels (process_chart_data A pf d)) =
     max (length (label_tokens (get_or (req_labels d) [])))
         (length (value_tokens pf (get_or (req_values d) [])))
   \<and> length (res_data (process_chart_data A pf d)) = length (res_labels (process_chart_data A pf d))"
  by (simp add: pcd_labels pcd_data max_def)

theorem padding_to_longer_witness:
  "res_labels (process_chart_data exact_arith digits_float
        \<lparr>req_labels = Some ''a,b'', req_values = Some ''1,2,3'', req_type = None, req_title = None\<rparr>)
       = [''a'', ''b'', ''Label'']
   \<and> res_data (process_chart_data exact_arith digits_float
        \<lparr>req_labels = Some ''a,b'', req_values = Some ''1,2,3'', req_type = None, req_title = None\<rparr>)
       = [1, 2, 3]"
proof -
  have l: "label_tokens ''a,b'' = [''a'', ''b'']"
    by code_simp
  have v: "value_tokens digits_float ''1,2,3'' = [1, 2, 3]"
    by code_simp
  show ?thesis
    using padding_to_longer [of exact_arith digits_float
        "\<lparr>req_labels = Some ''a,b'', req_values = Some ''1,2,3'', req_type = None, req_title = None\<rparr>"]
    by (simp add: l v get_or_def)
qed

text \<open>
  C4: the sequences that \<open>generate_matplotlib_plot\<close> plots are those of
  \<open>process_chart_data\<close>: the same values, labels of the same length, made of the same
  parsed labels, and padded with the empty string where \<open>process_chart_data\<close> pads
  with \<open>Label\<close>.
\<close>

theorem plot_inputs_as_chart_data:
  "snd (plot_inputs A pf d) = res_data (process_chart_data A pf d)
   \<and> length (fst (plot_inputs A pf d)) = length (res_labels (process_chart_data A pf d))
   \<and> length (fst (plot_inputs A pf d)) = length (snd (plot_inputs A pf d))
   \<and> fst (plot_inputs A pf d) =
       label_tokens (get_or (req_labels d) []) @
       replicate (length (value_tokens pf (get_or (req_values d) []))
                  - length (label_tokens (get_or (req_labels d) []))) []
   \<and> res_labels (process_chart_data A pf d) =
       label_tokens (get_or (req_labels d) []) @
       replicate (length (value_tokens pf (get_or (req_values d) []))
                  - length (label_tokens (get_or (req_labels d) []))) ''Label''"
  by (simp add: plot_inputs_eq pcd_labels pcd_data)

theorem plot_inputs_as_chart_data_witness:
  "plot_inputs exact_arith digits_float
        \<lparr>req_labels = Some ''a,b'', req_values = Some ''1,2,3'', req_type = None, req_title = None\<rparr>
       = ([''a'', ''b'', []], [1, 2, 3])
   \<and> res_labels (process_chart_data exact_arith digits_float
        \<lparr>req_labels = Some ''a,b'', req_values = Some ''1,2,3'', req_type = None, req_title = None\<rparr>)
       = [''a'', ''b'', ''Label'']"
proof -
  have l: "label_tokens ''a,b'' = [''a'', ''b'']"
    by code_simp
  have v: "value_tokens digits_float ''1,2,3'' = [1, 2, 3]"
    by code_simp
  have d: "res_data (process_chart_data exact_arith digits_float
        \<lparr>req_labels = Some ''a,b'', req_values = Some ''1,2,3'', req_type = None, req_title = None\<rparr>)
       = [1, 2, 3]"
    by (simp add: pcd_data l v get_or_def)
  show ?thesis
    using plot_inputs_as_chart_data [of exact_arith digits_float
        "\<lparr>req_labels = Some ''a,b'', req_values = Some ''1,2,3'', req_type = None, req_title = None\<rparr>"]
    by (simp add: l v d get_or_def prod_eq_iff)
qed

section \<open>Properties of ExportService\<close>

subsection \<open>The loops in closed form\<close>

lemma markdown_loop_text:
  "concat (markdown_loop bs acc) =
     concat acc @
     concat (map (\<lambda>b. (if get_or (blk_type b) ''p'' = ''h1'' then ''# ''
                        else if get_or (blk_type b) ''p'' = ''h2'' then ''## ''
                        else if get_or (blk_type b) ''p'' = ''h3'' then ''### ''
                        else [])
                       @ clean_html (strip (get_or (blk_text b) [])) @ newline @ newline)
                 (filter (\<lambda>b. strip (get_or (blk_text b) []) \<noteq> []) bs))"
  by (induction bs arbitrary: acc) (simp_all add: Let_def)






subsection \<open>Cleaning\<close>












subsection \<open>The three exporters\<close>

text \<open>
  C8: the Markdown export is, block by block and in order, the prefix \<open>#\<close>, \<open>##\<close> or
  \<open>###\<close> with a space for the types \<open>h1\<close>, \<open>h2\<close>, \<open>h3\<close> and no prefix for any other
  type, then the cleaned text, a line end, and one more line end as the blank separator
  line. The blocks whose text is empty or only whitespace (or absent) are left out.
\<close>

theorem markdown_blocks:
  "export_to_markdown c =
     concat (map (\<lambda>b. (if get_or (blk_type b) ''p'' = ''h1'' then ''# ''
                        else if get_or (blk_type b) ''p'' = ''h2'' then ''## ''
                        else if get_or (blk_type b) ''p'' = ''h3'' then ''### ''
                        else [])
                       @ clean_html (strip (get_or (blk_text b) [])) @ newline @ newline)
                 (filter (\<lambda>b. strip (get_or (blk_text b) []) \<noteq> [])
                         (get_or (doc_blocks c) [])))"
  by (simp add: export_to_markdown_def markdown_loop_text)

theorem markdown_blocks_witness:
  "export_to_markdown \<lparr>doc_blocks = Some
       [\<lparr>blk_type = Some ''h1'', blk_text = Some ''Title'', blk_content = None\<rparr>,
        \<lparr>blk_type = Some ''p'', blk_text = Some ''   '', blk_content = Some ''kept out''\<rparr>,
        \<lparr>blk_type = Some ''h2'', blk_text = Some '' <b>Part</b> one '', blk_content = None\<rparr>,
        \<lparr>blk_type = None, blk_text = None, blk_content = None\<rparr>,
        \<lparr>blk_type = Some ''h3'', blk_text = Some ''a &lt; b'', blk_content = None\<rparr>,
        \<lparr>blk_type = Some ''quote'', blk_text = Some ''plain'', blk_content = None\<rparr>]\<rparr>
   = ''# Title'' @ newline @ newline @ ''## Part one'' @ newline @ newline
     @ ''### a < b'' @ newline @ newline @ ''plain'' @ newline @ newline"
proof -
  have s1: "strip ''Title'' = ''Title''" and s2: "strip ''   '' = []"
    and s3: "strip '' <b>Part</b> one '' = ''<b>Part</b> one''"
    and s4: "strip ''a &lt; b'' = ''a &lt; b''" and s5: "strip ''plain'' = ''plain''"
    and s6: "strip [] = []"
    by code_simp+
  have c1: "clean_html ''Title'' = ''Title''" and c3: "clean_html ''<b>Part</b> one'' = ''Part one''"
    and c4: "clean_html ''a &lt; b'' = ''a < b''" and c5: "clean_html ''plain'' = ''plain''"
    by code_simp+
  show ?thesis
    by (subst markdown_blocks) (simp add: get_or_def s1 s2 s3 s4 s5 s6 c1 c3 c4 c5)
qed







section \<open>Properties of AuthService\<close>

subsection \<open>Taking the token out of the header\<close>

lemma split_chr_not_Nil: "split_chr c s \<noteq> []"
  by (induction s) (simp_all split: list.splits)

lemma split_chr_no_sep: "c \<notin> set s \<Longrightarrow> split_chr c s = [s]"
  by (induction s) auto

lemma split_chr_prefix: "c \<notin> set s \<Longrightarrow> split_chr c (s @ c # t) = s # split_chr c t"
  by (induction s) auto

lemma second_scheme:
  "CHR '' '' \<notin> set s \<Longrightarrow>
   second (split_chr (CHR '' '') (s @ '' '' @ t)) = Some (hd (split_chr (CHR '' '') t))"
  using split_chr_not_Nil [of "CHR '' ''" t]
  by (cases "split_chr (CHR '' '') t") (simp_all add: split_chr_prefix second_def)

lemma require_auth_token:
  "h \<noteq> [] \<Longrightarrow> second (split_chr (CHR '' '') h) = Some token \<Longrightarrow>
   require_auth vid jd f (Some h) =
     (case (if falsy (verify_firebase_token vid token)
            then verify_session_token jd token
            else Inr (verify_firebase_token vid token)) of
        Inl e \<Rightarrow> Unauthorized ''Authentication failed''
      | Inr decoded \<Rightarrow>
          (case decoded of
             None \<Rightarrow> Unauthorized ''Invalid token''
           | Some user \<Rightarrow>
               if user = [] then Unauthorized ''Invalid token'' else call_handler f user))"
  by (simp add: require_auth_def Let_def)

subsection \<open>The authorization middleware\<close>

text \<open>
  C7: the middleware answers 401 when the header is absent (or empty), when the header
  has no space, and when the token fails both verifications. A verification fails, by the
  middleware's own test \<open>not decoded\<close>, when it gives \<open>None\<close> or an empty dictionary
  (or, for the session token, raises). When the identity provider's verification fails and
  the session token's succeeds, the handler runs with the session claims; when the identity
  token is valid, the handler runs with its decoded claims.
\<close>

theorem middleware_outcomes:
  "require_auth vid jd f None = Unauthorized ''No authorization header''
   \<and> require_auth vid jd f (Some []) = Unauthorized ''No authorization header''
   \<and> (h1 \<noteq> [] \<and> CHR '' '' \<notin> set h1 \<longrightarrow>
        require_auth vid jd f (Some h1) = Unauthorized ''Authentication failed'')
   \<and> (h2 \<noteq> [] \<and> second (split_chr (CHR '' '') h2) = Some t2
        \<and> falsy (verify_firebase_token vid t2)
        \<and> (case verify_session_token jd t2 of Inl e \<Rightarrow> True | Inr d \<Rightarrow> falsy d) \<longrightarrow>
        require_auth vid jd f (Some h2)
          \<in> {Unauthorized ''Invalid token'', Unauthorized ''Authentication failed''})
   \<and> (h3 \<noteq> [] \<and> second (split_chr (CHR '' '') h3) = Some t3
        \<and> falsy (verify_firebase_token vid t3)
        \<and> verify_session_token jd t3 = Inr (Some u3) \<and> \<not> falsy (Some u3) \<longrightarrow>
        require_auth vid jd f (Some h3) = call_handler f u3)
   \<and> (h4 \<noteq> [] \<and> second (split_chr (CHR '' '') h4) = Some t4
        \<and> verify_firebase_token vid t4 = Some u4 \<and> \<not> falsy (Some u4) \<longrightarrow>
        require_auth vid jd f (Some h4) = call_handler f u4)"
proof -
  have absent: "require_auth vid jd f None = Unauthorized ''No authorization header''"
    by (simp add: require_auth_def)
  have empty: "require_auth vid jd f (Some []) = Unauthorized ''No authorization header''"
    by (simp add: require_auth_def)
  have malformed: "h1 \<noteq> [] \<and> CHR '' '' \<notin> set h1 \<longrightarrow>
        require_auth vid jd f (Some h1) = Unauthorized ''Authentication failed''"
    by (simp add: require_auth_def split_chr_no_sep second_def)
  have both_fail: "h2 \<noteq> [] \<and> second (split_chr (CHR '' '') h2) = Some t2
        \<and> falsy (verify_firebase_token vid t2)
        \<and> (case verify_session_token jd t2 of Inl e \<Rightarrow> True | Inr d \<Rightarrow> falsy d) \<longrightarrow>
        require_auth vid jd f (Some h2)
          \<in> {Unauthorized ''Invalid token'', Unauthorized ''Authentication failed''}"
    by (auto simp: require_auth_token falsy_def split: sum.splits option.splits)
  have session: "h3 \<noteq> [] \<and> second (split_chr (CHR '' '') h3) = Some t3
        \<and> falsy (verify_firebase_token vid t3)
        \<and> verify_session_token jd t3 = Inr (Some u3) \<and> \<not> falsy (Some u3) \<longrightarrow>
        require_auth vid jd f (Some h3) = call_handler f u3"
    by (auto simp: require_auth_token falsy_def)
  have identity: "h4 \<noteq> [] \<and> second (split_chr (CHR '' '') h4) = Some t4
        \<and> verify_firebase_token vid t4 = Some u4 \<and> \<not> falsy (Some u4) \<longrightarrow>
        require_auth vid jd f (Some h4) = call_handler f u4"
    by (auto simp: require_auth_token falsy_def)
  show ?thesis
    by (rule conjI [OF absent conjI [OF empty conjI [OF malformed conjI [OF both_fail
          conjI [OF session identity]]]]])
qed

theorem middleware_outcomes_witness:
  "require_auth (\<lambda>t. if t = ''idtok'' then Inr [(''uid'', ''u1''), (''email'', ''a@b.c'')] else Inl ())
      (\<lambda>t. if t = ''sess'' then Inr [(''user_id'', ''u2'')] else Inl InvalidTokenError)
      (\<lambda>user. Some user) None
     = Unauthorized ''No authorization header''
   \<and> require_auth (\<lambda>t. if t = ''idtok'' then Inr [(''uid'', ''u1''), (''email'', ''a@b.c'')] else Inl ())
      (\<lambda>t. if t = ''sess'' then Inr [(''user_id'', ''u2'')] else Inl InvalidTokenError)
      (\<lambda>user. Some user) (Some ''Bearer'')
     = Unauthorized ''Authentication failed''
   \<and> require_auth (\<lambda>t. if t = ''idtok'' then Inr [(''uid'', ''u1''), (''email'', ''a@b.c'')] else Inl ())
      (\<lambda>t. if t = ''sess'' then Inr [(''user_id'', ''u2'')] else Inl InvalidTokenError)
      (\<lambda>user. Some user) (Some ''Bearer bad'')
     \<in> {Unauthorized ''Invalid token'', Unauthorized ''Authentication failed''}
   \<and> require_auth (\<lambda>t. if t = ''idtok'' then Inr [(''uid'', ''u1''), (''email'', ''a@b.c'')] else Inl ())
      (\<lambda>t. if t = ''sess'' then Inr [(''user_id'', ''u2'')] else Inl InvalidTokenError)
      (\<lambda>user. Some user) (Some ''Bearer sess'')
     = Handled [(''user_id'', ''u2'')]
   \<and> require_auth (\<lambda>t. if t = ''idtok'' then Inr [(''uid'', ''u1''), (''email'', ''a@b.c'')] else Inl ())
      (\<lambda>t. if t = ''sess'' then Inr [(''user_id'', ''u2'')] else Inl InvalidTokenError)
      (\<lambda>user. Some user) (Some ''Bearer idtok'')
     = Handled [(''uid'', ''u1''), (''email'', ''a@b.c'')]"
proof -
  let ?vid = "\<lambda>t. if t = ''idtok'' then Inr [(''uid'', ''u1''), (''email'', ''a@b.c'')] else Inl ()"
  let ?jd = "\<lambda>t. if t = ''sess'' then Inr [(''user_id'', ''u2'')] else Inl InvalidTokenError"
  let ?f = "\<lambda>user :: claims. Some user"
  note T = middleware_outcomes [where vid = ?vid and jd = ?jd and f = ?f
      and ?h1.0 = "''Bearer''"
      and ?h2.0 = "''Bearer bad''" and ?t2.0 = "''bad''"
      and ?h3.0 = "''Bearer sess''" and ?t3.0 = "''sess''" and ?u3.0 = "[(''user_id'', ''u2'')]"
      and ?h4.0 = "''Bearer idtok''" and ?t4.0 = "''idtok''"
      and ?u4.0 = "[(''uid'', ''u1''), (''email'', ''a@b.c'')]"]
  have a: "second (split_chr (CHR '' '') ''Bearer bad'') = Some ''bad''"
    and b: "second (split_chr (CHR '' '') ''Bearer sess'') = Some ''sess''"
    and c: "second (split_chr (CHR '' '') ''Bearer idtok'') = Some ''idtok''"
    by code_simp+
  have c1: "require_auth ?vid ?jd ?f None = Unauthorized ''No authorization header''"
    by (rule T [THEN conjunct1])
  have c2: "require_auth ?vid ?jd ?f (Some ''Bearer'') = Unauthorized ''Authentication failed''"
    using T [THEN conjunct2, THEN conjunct2, THEN conjunct1] by simp
  have c3: "require_auth ?vid ?jd ?f (Some ''Bearer bad'')
     \<in> {Unauthorized ''Invalid token'', Unauthorized ''Authentication failed''}"
    using T [THEN conjunct2, THEN conjunct2, THEN conjunct2, THEN conjunct1] a
    by (simp add: falsy_def verify_firebase_token_def verify_session_token_def)
  have c4: "require_auth ?vid ?jd ?f (Some ''Bearer sess'') = Handled [(''user_id'', ''u2'')]"
    using T [THEN conjunct2, THEN conjunct2, THEN conjunct2, THEN conjunct2, THEN conjunct1] b
    by (simp add: falsy_def verify_firebase_token_def verify_session_token_def call_handler_def)
  have c5: "require_auth ?vid ?jd ?f (Some ''Bearer idtok'')
     = Handled [(''uid'', ''u1''), (''email'', ''a@b.c'')]"
    using T [THEN conjunct2, THEN conjunct2, THEN conjunct2, THEN conjunct2, THEN conjunct2] c
    by (simp add: falsy_def verify_firebase_token_def call_handler_def)
  show ?thesis
    by (rule conjI [OF c1 conjI [OF c2 conjI [OF c3 conjI [OF c4 c5]]]])
qed

text \<open>
  C10: the scheme word is never looked at. For two scheme words without a space and any
  token text, the headers made of the scheme, a space and the token give the same outcome.
\<close>

theorem scheme_not_inspected:
  assumes "CHR '' '' \<notin> set s1" and "CHR '' '' \<notin> set s2"
  shows "require_auth vid jd f (Some (s1 @ '' '' @ t)) = require_auth vid jd f (Some (s2 @ '' '' @ t))"
proof -
  let ?token = "hd (split_chr (CHR '' '') t)"
  have "require_auth vid jd f (Some (s @ '' '' @ t)) =
     (case (if falsy (verify_firebase_token vid ?token)
            then verify_session_token jd ?token
            else Inr (verify_firebase_token vid ?token)) of
        Inl e \<Rightarrow> Unauthorized ''Authentication failed''
      | Inr decoded \<Rightarrow>
          (case decoded of
             None \<Rightarrow> Unauthorized ''Invalid token''
           | Some user \<Rightarrow>
               if user = [] then Unauthorized ''Invalid token'' else call_handler f user))"
    if "CHR '' '' \<notin> set s" for s
    using that by (intro require_auth_token second_scheme) simp_all
  from this [OF assms(1)] this [OF assms(2)] show ?thesis
    by simp
qed

theorem scheme_not_inspected_witness:
  "CHR '' '' \<notin> set ''Basic'' \<and> CHR '' '' \<notin> set ''Bearer''
   \<and> require_auth (\<lambda>t. if t = ''idtok'' then Inr [(''uid'', ''u1'')] else Inl ())
        (\<lambda>t. Inl InvalidTokenError) (\<lambda>user. Some user) (Some ''Basic idtok'')
     = require_auth (\<lambda>t. if t = ''idtok'' then Inr [(''uid'', ''u1'')] else Inl ())
        (\<lambda>t. Inl InvalidTokenError) (\<lambda>user. Some user) (Some ''Bearer idtok'')
   \<and> require_auth (\<lambda>t. if t = ''idtok'' then Inr [(''uid'', ''u1'')] else Inl ())
        (\<lambda>t. Inl InvalidTokenError) (\<lambda>user. Some user) (Some ''Basic idtok'')
     = Handled [(''uid'', ''u1'')]"
proof -
  have h1: "CHR '' '' \<notin> set ''Basic''" and h2: "CHR '' '' \<notin> set ''Bearer''"
    by simp_all
  have r: "require_auth (\<lambda>t. if t = ''idtok'' then Inr [(''uid'', ''u1'')] else Inl ())
        (\<lambda>t. Inl InvalidTokenError) (\<lambda>user. Some user) (Some ''Basic idtok'')
     = Handled [(''uid'', ''u1'')]"
    by code_simp
  show ?thesis
    using scheme_not_inspected [OF h1 h2, where t = "''idtok''"
        and vid = "\<lambda>t. if t = ''idtok'' then Inr [(''uid'', ''u1'')] else Inl ()"
        and jd = "\<lambda>t. Inl InvalidTokenError" and f = "\<lambda>user. Some user"] r
    by simp
qed


subsection \<open>Updating a user\<close>




end
